theory Spec2Isabelle
  imports Complex_Main
begin

section \<open>Data model\<close>

text \<open>
  JavaScript strings are modelled as \<open>string\<close>, one \<open>char\<close> per code unit.
  A JavaScript \<open>number\<close> is only stored and copied by the code below (\<open>score\<close>,
  \<open>response_time\<close>), never computed on.
\<close>

type_synonym number = real

text \<open>\<open>interface TavilySearchResult\<close> and \<open>interface TavilySearchResponse\<close>
  of \<open>lib/ai/tools/tavilySearch.ts\<close>. The records come out of a parsed body that
  nothing checks, so a record can arrive without the property \<open>content\<close>, the one
  property on which \<open>execute\<close> calls a method: then \<open>content\<close> is \<open>None\<close>,
  JavaScript's \<open>undefined\<close>. The other properties are only copied.\<close>

record TavilySearchResult =
  title :: string
  url :: string
  content :: "string option"
  score :: number

record TavilySearchResponse =
  query :: string
  response_time :: number
  results :: "TavilySearchResult list"

text \<open>The types of \<open>components/data-stream-handler\<close>:
  \<open>TavilySource = { title; url; content?; score? }\<close>, the five-valued
  \<open>TavilySearchStatus\<close>, and \<open>DataStreamDelta\<close>, whose content is a string, a
  suggestion, or the object with \<open>toolCallId\<close> and five optional fields. An
  optional field that is absent is \<open>None\<close>. Of the kinds of delta that are not
  Tavily's, \<open>text_delta\<close> stands for all: the reducer treats them alike.\<close>

record TavilySource =
  s_title :: string
  s_url :: string
  s_content :: "string option"
  s_score :: "number option"

datatype TavilySearchStatus =
    Searching
  | Summarizing
  | Complete
  | No_results_found
  | Error_occurred_during_search

record TavilyContent =
  c_toolCallId :: string
  c_status :: "TavilySearchStatus option"
  c_sources :: "TavilySource list option"
  c_delta :: "string option"
  c_summary :: "string option"
  c_error :: "string option"

datatype delta_type =
    text_delta
  | tavily_search_status
  | tavily_search_sources
  | tavily_summary_delta

datatype delta_content =
    ContentString string
  | ContentSuggestion
  | ContentObject TavilyContent

record DataStreamDelta =
  dtype :: delta_type
  dcontent :: delta_content

section \<open>The client reducer of \<open>components/tavily-search-results.tsx\<close>\<close>

text \<open>The four \<open>useState\<close> cells that the stream effect writes.\<close>

record reducer_state =
  status :: TavilySearchStatus
  sources :: "TavilySource list"
  summary :: string
  error :: "string option"

record initialResult =
  i_summary :: "string option"
  i_sources :: "TavilySource list option"

text \<open>\<open>if (x)\<close> on an optional string: \<open>undefined\<close> and \<open>''\<close> are falsy.\<close>

fun truthy :: "string option \<Rightarrow> bool" where
  "truthy None = False"
| "truthy (Some s) = (s \<noteq> [])"

text \<open>\<open>useState(initialResult?.sources || [])\<close>, \<open>useState(initialResult?.summary || '')\<close>.\<close>

definition initialState :: "initialResult option \<Rightarrow> reducer_state" where
  "initialState ir =
     \<lparr> status = Searching,
       sources = (case ir of None \<Rightarrow> []
                  | Some r \<Rightarrow> (case i_sources r of None \<Rightarrow> [] | Some xs \<Rightarrow> xs)),
       summary = (case ir of None \<Rightarrow> []
                  | Some r \<Rightarrow> (case i_summary r of None \<Rightarrow> [] | Some t \<Rightarrow> t)),
       error = None \<rparr>"

text \<open>The updater passed to \<open>setSources\<close>:
  \<open>s => [...s, ...new.filter(ns => !s.some(es => es.url === ns.url))]\<close>.\<close>

definition appendUnique :: "TavilySource list \<Rightarrow> TavilySource list \<Rightarrow> TavilySource list" where
  "appendUnique s new =
     s @ filter (\<lambda>ns. \<not> list_ex (\<lambda>es. s_url es = s_url ns) s) new"

text \<open>The body of \<open>relevantDeltas.forEach\<close>: the \<open>switch (delta.type)\<close>, guarded by
  the content being an object with a \<open>toolCallId\<close>. An array is truthy even when
  empty, so \<open>if (content.sources)\<close> tests presence only; the status strings are all
  non-empty.\<close>

definition applyStatus :: "TavilyContent \<Rightarrow> reducer_state \<Rightarrow> reducer_state" where
  "applyStatus c st =
     (let st1 = (case c_status c of None \<Rightarrow> st | Some v \<Rightarrow> st\<lparr>status := v\<rparr>);
          st2 = (case c_sources c of None \<Rightarrow> st1
                 | Some new \<Rightarrow> st1\<lparr>sources := appendUnique (sources st1) new\<rparr>);
          st3 = (case c_summary c of None \<Rightarrow> st2
                 | Some t \<Rightarrow> if truthy (Some t) then st2\<lparr>summary := t\<rparr> else st2)
      in (case c_error c of None \<Rightarrow> st3
          | Some e \<Rightarrow> if truthy (Some e) then st3\<lparr>error := Some e\<rparr> else st3))"

definition applySources :: "TavilyContent \<Rightarrow> reducer_state \<Rightarrow> reducer_state" where
  "applySources c st =
     (case c_sources c of None \<Rightarrow> st
      | Some new \<Rightarrow> st\<lparr>sources := appendUnique (sources st) new\<rparr>)"

definition applySummaryDelta :: "TavilyContent \<Rightarrow> reducer_state \<Rightarrow> reducer_state" where
  "applySummaryDelta c st =
     (case c_delta c of None \<Rightarrow> st
      | Some t \<Rightarrow> if truthy (Some t) then st\<lparr>summary := summary st @ t\<rparr> else st)"

definition applyDelta :: "reducer_state \<Rightarrow> DataStreamDelta \<Rightarrow> reducer_state" where
  "applyDelta st d =
     (case dcontent d of
        ContentObject c \<Rightarrow>
          (case dtype d of
             tavily_search_status \<Rightarrow> applyStatus c st
           | tavily_search_sources \<Rightarrow> applySources c st
           | tavily_summary_delta \<Rightarrow> applySummaryDelta c st
           | text_delta \<Rightarrow> st)
      | _ \<Rightarrow> st)"

text \<open>The filter that selects \<open>relevantDeltas\<close>, and one run of the effect.\<close>

definition relevant :: "string \<Rightarrow> DataStreamDelta \<Rightarrow> bool" where
  "relevant tid d =
     (case dcontent d of ContentObject c \<Rightarrow> c_toolCallId c = tid | _ \<Rightarrow> False)"

definition processStream :: "string \<Rightarrow> DataStreamDelta list \<Rightarrow> reducer_state \<Rightarrow> reducer_state" where
  "processStream tid dataStream st = foldl applyDelta st (filter (relevant tid) dataStream)"

text \<open>\<open>uniqueSources\<close>: a filter that threads the set \<open>seenUrls\<close>.\<close>

fun uniqueFilter :: "string set \<Rightarrow> TavilySource list \<Rightarrow> TavilySource list" where
  "uniqueFilter seenUrls [] = []"
| "uniqueFilter seenUrls (source # rest) =
     (if s_url source \<in> seenUrls then uniqueFilter seenUrls rest
      else source # uniqueFilter (insert (s_url source) seenUrls) rest)"

definition uniqueSources :: "TavilySource list \<Rightarrow> TavilySource list" where
  "uniqueSources srcs = uniqueFilter {} srcs"

section \<open>The tool \<open>tavilySearch\<close> of \<open>lib/ai/tools/tavilySearch.ts\<close>\<close>

subsection \<open>The world outside the tool\<close>

text \<open>
  What \<open>execute\<close> reads from outside is an input of the model: the environment
  variable, the identifier drawn by \<open>generateUUID\<close>, what each \<open>fetch\<close> does, the
  order in which the pending search promises settle, and what the text generator
  yields for a prompt.

  A thrown value is an \<open>Error\<close> object with its message, or it is \<open>undefined\<close> or
  \<open>null\<close> (\<open>Nullish\<close>), on which reading \<open>.message\<close> throws a
  \<open>TypeError\<close>.

  A body that does not parse makes \<open>res.json()\<close> reject. A body that parses is
  returned as it is: the cast \<open>(await res.json()) as TavilySearchResponse\<close> checks
  nothing. Of a parsed body the model keeps what \<open>execute\<close> reads of it: either it
  has an array \<open>results\<close> (\<open>Shaped\<close>), whose records may lack their
  \<open>content\<close>, or it has none (\<open>Unshaped\<close>): the body is \<open>null\<close>, or an
  object such as \<open>{detail: ...}\<close>.
\<close>

datatype js_error = Error string | Nullish

datatype parsed_body = Shaped TavilySearchResponse | Unshaped

datatype json_outcome = JsonRejects js_error | JsonResolves parsed_body

record http_response =
  ok :: bool
  statusText :: string
  json :: json_outcome

datatype fetch_outcome = FetchRejects js_error | FetchResolves http_response

text \<open>The async iterable \<open>textStream\<close>: the fragments it yields, then either the end
  of the stream or a throw. A rejection of \<open>streamText\<close> itself is a throw before
  the first fragment.\<close>

datatype text_stream = TextStream (fragments: "string list") (failure: "js_error option")

text \<open>\<open>typeErrorMessage p\<close> is the message of the \<open>TypeError\<close> that the
  JavaScript engine throws when the property \<open>p\<close> is read on \<open>undefined\<close> or
  \<open>null\<close>.\<close>

record world =
  TAVILY_API_KEY :: "string option"
  uuid :: string
  fetch :: "nat \<Rightarrow> string \<Rightarrow> fetch_outcome"
  settle_order :: "nat list"
  streamText :: "string \<Rightarrow> text_stream"
  typeErrorMessage :: "string \<Rightarrow> string"

text \<open>What \<open>execute\<close> does to the outside, in order: a \<open>dataStream.writeData\<close>, or a
  call of the text generator with its prompt.\<close>

datatype effect = WriteData DataStreamDelta | StreamTextCall string

record tool_result =
  r_toolCallId :: string
  r_summary :: string
  r_sources :: "TavilySource list"
  r_error :: "string option"

datatype outcome = Throws js_error | Returns tool_result | Pending

record run =
  effects :: "effect list"
  outcome :: outcome

subsection \<open>Helpers\<close>

definition serializeSearchResult :: "TavilySearchResult \<Rightarrow> TavilySource" where
  "serializeSearchResult result =
     \<lparr> s_title = title result, s_url = url result,
       s_content = content result, s_score = Some (score result) \<rparr>"

text \<open>\<open>Array.prototype.join\<close> and the decimal rendering of an index in a template.\<close>

fun join :: "string \<Rightarrow> string list \<Rightarrow> string" where
  "join sep [] = []"
| "join sep [x] = x"
| "join sep (x # y # ys) = x @ sep @ join sep (y # ys)"

definition digit :: "nat \<Rightarrow> char" where
  "digit d = char_of (of_char (CHR ''0'') + d)"

function string_of_nat :: "nat \<Rightarrow> string" where
  "string_of_nat n =
     (if n < 10 then [digit n] else string_of_nat (n div 10) @ [digit (n mod 10)])"
  by pat_completeness auto
termination
  by (relation "measure id") auto

definition nl :: string where
  "nl = [CHR 0x0A]"

subsection \<open>The per-query search promise\<close>

text \<open>The body of the inner \<open>try\<close>: \<open>await fetch\<close> may throw, a response that is not
  \<open>ok\<close> returns the empty response at once, and \<open>await res.json()\<close> may throw.\<close>

definition emptyResponse :: "string \<Rightarrow> TavilySearchResponse" where
  "emptyResponse q = \<lparr> query = q, response_time = 0, results = [] \<rparr>"

definition searchBody :: "string \<Rightarrow> fetch_outcome \<Rightarrow> js_error + parsed_body" where
  "searchBody q out =
     (case out of
        FetchRejects e \<Rightarrow> Inl e
      | FetchResolves res \<Rightarrow>
          if \<not> ok res then Inr (Shaped (emptyResponse q))
          else (case json res of JsonRejects e \<Rightarrow> Inl e | JsonResolves b \<Rightarrow> Inr b))"

text \<open>The inner \<open>try\<close> with its \<open>catch\<close>: how the promise of one query settles
  (\<open>Inl\<close> rejected, \<open>Inr\<close> fulfilled). The \<open>catch\<close> only logs the thrown value,
  whatever it is.\<close>

definition searchPromise :: "string \<Rightarrow> fetch_outcome \<Rightarrow> js_error + parsed_body" where
  "searchPromise q out =
     (case searchBody q out of Inl e \<Rightarrow> Inr (Shaped (emptyResponse q)) | Inr b \<Rightarrow> Inr b)"

definition searchPromises :: "world \<Rightarrow> string list \<Rightarrow> (js_error + parsed_body) list" where
  "searchPromises w queries =
     map (\<lambda>(i, q). searchPromise q (fetch w i q)) (enumerate 0 queries)"

subsection \<open>\<open>Promise.all\<close>\<close>

text \<open>
  \<open>Promise.all\<close> keeps one slot per input promise. Promises settle in the order
  \<open>order\<close> (a list of indices): a fulfilment stores the value in the slot of that
  promise, the first rejection rejects the whole. It fulfils with the slots, in input
  order, once all are filled, and it stays pending (\<open>None\<close>) when some promise never
  settles.
\<close>

fun promise_all_run ::
  "(js_error + 'a) list \<Rightarrow> nat list \<Rightarrow> 'a option list \<Rightarrow> (js_error + 'a list) option" where
  "promise_all_run ps [] slots =
     (case those slots of None \<Rightarrow> None | Some vs \<Rightarrow> Some (Inr vs))"
| "promise_all_run ps (i # order) slots =
     (if i < length ps then
        (case ps ! i of
           Inl e \<Rightarrow> Some (Inl e)
         | Inr v \<Rightarrow> promise_all_run ps order (slots[i := Some v]))
      else promise_all_run ps order slots)"

definition Promise_all :: "(js_error + 'a) list \<Rightarrow> nat list \<Rightarrow> (js_error + 'a list) option" where
  "Promise_all ps order = promise_all_run ps order (replicate (length ps) None)"

text \<open>Every pending promise settles: each index occurs in the order.\<close>

definition all_settle :: "nat list \<Rightarrow> nat \<Rightarrow> bool" where
  "all_settle order n = list_all (\<lambda>i. i \<in> set order) [0..<n]"

subsection \<open>\<open>execute\<close>\<close>

text \<open>Step 2, the loop \<open>for (const response of searchResponses)\<close>, threading
  \<open>allSources\<close> and the effects so far. The test
  \<open>response?.results?.length > 0\<close> is false for a body without \<open>results\<close>.\<close>

fun collectSources ::
  "string \<Rightarrow> parsed_body list \<Rightarrow> TavilySearchResult list \<times> effect list
     \<Rightarrow> TavilySearchResult list \<times> effect list" where
  "collectSources toolCallId [] acc = acc"
| "collectSources toolCallId (Unshaped # rest) (allSources, es) =
     collectSources toolCallId rest (allSources, es)"
| "collectSources toolCallId (Shaped response # rest) (allSources, es) =
     (if length (results response) > 0 then
        (let relevantResults = take 5 (results response);
             serializedResults = map serializeSearchResult relevantResults
         in collectSources toolCallId rest
              (allSources @ relevantResults,
               es @ [WriteData \<lparr> dtype = tavily_search_sources,
                       dcontent = ContentObject
                         \<lparr> c_toolCallId = toolCallId, c_status = None,
                           c_sources = Some serializedResults, c_delta = None,
                           c_summary = None, c_error = None \<rparr> \<rparr>]))
      else collectSources toolCallId rest (allSources, es))"

text \<open>Step 3, the prompt. In a template literal \<open>undefined\<close> reads
  \<open>undefined\<close>.\<close>

definition contextForSummarization :: "TavilySearchResult list \<Rightarrow> string" where
  "contextForSummarization allSources =
     join (nl @ nl @ ''---'' @ nl @ nl)
       (map (\<lambda>(index, result).
               ''Source '' @ string_of_nat (index + 1) @ '' ('' @ url result @ ''):'' @ nl
               @ (case content result of None \<Rightarrow> ''undefined'' | Some c \<Rightarrow> c))
            (enumerate 0 allSources))"

definition summarizationPrompt :: "string list \<Rightarrow> TavilySearchResult list \<Rightarrow> string" where
  "summarizationPrompt queries allSources =
     ''Based on the following search results, provide a concise summary addressing the original queries: [''
     @ join '', '' queries
     @ '']. Cite relevant source numbers (e.g., [Source 1], [Source 2]) where appropriate.''
     @ nl @ nl @ ''Search Results:'' @ nl @ contextForSummarization allSources"

text \<open>Step 4, the loop \<open>for await (const delta of textStream)\<close>, threading
  \<open>finalSummary\<close> and the effects so far.\<close>

fun consumeStream ::
  "string \<Rightarrow> string list \<Rightarrow> string \<times> effect list \<Rightarrow> string \<times> effect list" where
  "consumeStream toolCallId [] acc = acc"
| "consumeStream toolCallId (delta # rest) (finalSummary, es) =
     consumeStream toolCallId rest
       (finalSummary @ delta,
        es @ [WriteData \<lparr> dtype = tavily_summary_delta,
                dcontent = ContentObject
                  \<lparr> c_toolCallId = toolCallId, c_status = None, c_sources = None,
                    c_delta = Some delta, c_summary = None, c_error = None \<rparr> \<rparr>])"

text \<open>The \<open>sources\<close> of the object returned after \<open>Complete\<close>:
  \<open>allSources.map(s => ({url, title, content: `${s.content.substring(0, 150)}...`}))\<close>.
  On the first record without a \<open>content\<close> the call of \<open>substring\<close> throws the
  engine's \<open>TypeError\<close>.\<close>

fun truncatedSources :: "world \<Rightarrow> TavilySearchResult list \<Rightarrow> js_error + TavilySource list" where
  "truncatedSources w [] = Inr []"
| "truncatedSources w (s # rest) =
     (case content s of
        None \<Rightarrow> Inl (Error (typeErrorMessage w ''substring''))
      | Some c \<Rightarrow>
          (case truncatedSources w rest of
             Inl e \<Rightarrow> Inl e
           | Inr out \<Rightarrow>
               Inr (\<lparr> s_title = title s, s_url = url s,
                      s_content = Some (take 150 c @ ''...''), s_score = None \<rparr> # out)))"

text \<open>Steps 3 to 5: the part of the \<open>try\<close> block after the no-results test. The result
  is the effects of the block and how it ends: \<open>Inl\<close> a throw, \<open>Inr\<close> a return. The
  \<open>Complete\<close> event is written before the returned object is built.\<close>

definition summarizeSources ::
  "world \<Rightarrow> string \<Rightarrow> string list \<Rightarrow> TavilySearchResult list \<Rightarrow> effect list
     \<Rightarrow> effect list \<times> (js_error + tool_result) option" where
  "summarizeSources w toolCallId queries allSources es =
     (let prompt = summarizationPrompt queries allSources;
          serializedSources = map serializeSearchResult allSources;
          es1 = es @ [WriteData \<lparr> dtype = tavily_search_status,
                        dcontent = ContentObject
                          \<lparr> c_toolCallId = toolCallId, c_status = Some Summarizing,
                            c_sources = Some serializedSources, c_delta = None,
                            c_summary = None, c_error = None \<rparr> \<rparr>,
                      StreamTextCall prompt];
          textStream = streamText w prompt;
          (finalSummary, es2) = consumeStream toolCallId (fragments textStream) ([], es1)
      in (case failure textStream of
            Some e \<Rightarrow> (es2, Some (Inl e))
          | None \<Rightarrow>
              (let es3 = es2 @ [WriteData \<lparr> dtype = tavily_search_status,
                                  dcontent = ContentObject
                                    \<lparr> c_toolCallId = toolCallId, c_status = Some Complete,
                                      c_sources = Some serializedSources, c_delta = None,
                                      c_summary = Some finalSummary, c_error = None \<rparr> \<rparr>]
               in (case truncatedSources w allSources of
                     Inl e \<Rightarrow> (es3, Some (Inl e))
                   | Inr srcs \<Rightarrow>
                       (es3, Some (Inr \<lparr> r_toolCallId = toolCallId, r_summary = finalSummary,
                                         r_sources = srcs, r_error = None \<rparr>))))))"

text \<open>The \<open>try\<close> block. \<open>None\<close>: the block never finishes, \<open>Promise.all\<close> being
  pending for ever.\<close>

definition tryBlock ::
  "world \<Rightarrow> string \<Rightarrow> string list \<Rightarrow> effect list \<times> (js_error + tool_result) option" where
  "tryBlock w toolCallId queries =
     (case Promise_all (searchPromises w queries) (settle_order w) of
        None \<Rightarrow> ([], None)
      | Some (Inl e) \<Rightarrow> ([], Some (Inl e))
      | Some (Inr searchResponses) \<Rightarrow>
          (let (allSources, es) = collectSources toolCallId searchResponses ([], [])
           in if length allSources = 0 then
                (es @ [WriteData \<lparr> dtype = tavily_search_status,
                         dcontent = ContentObject
                           \<lparr> c_toolCallId = toolCallId, c_status = Some No_results_found,
                             c_sources = Some [], c_delta = None,
                             c_summary = None, c_error = None \<rparr> \<rparr>],
                 Some (Inr \<lparr> r_toolCallId = toolCallId,
                             r_summary = ''No relevant search results found.'',
                             r_sources = [], r_error = None \<rparr>))
              else summarizeSources w toolCallId queries allSources es))"

text \<open>\<open>execute\<close>: the credential test, the first status event, the \<open>try\<close> block and
  its \<open>catch\<close>. The \<open>catch\<close> reads \<open>(error as Error).message\<close> to build the
  event it writes: on a thrown \<open>undefined\<close> or \<open>null\<close> that read throws, nothing is
  written and \<open>execute\<close> itself throws the \<open>TypeError\<close>.\<close>

definition execute :: "world \<Rightarrow> string list \<Rightarrow> run" where
  "execute w queries =
     (if \<not> truthy (TAVILY_API_KEY w) then
        \<lparr> effects = [], outcome = Throws (Error ''Tavily API key not configured.'') \<rparr>
      else
        (let toolCallId = uuid w;
             first = WriteData \<lparr> dtype = tavily_search_status,
                       dcontent = ContentObject
                         \<lparr> c_toolCallId = toolCallId, c_status = Some Searching,
                           c_sources = Some [], c_delta = None,
                           c_summary = None, c_error = None \<rparr> \<rparr>
         in (case tryBlock w toolCallId queries of
               (es, None) \<Rightarrow> \<lparr> effects = first # es, outcome = Pending \<rparr>
             | (es, Some (Inr r)) \<Rightarrow> \<lparr> effects = first # es, outcome = Returns r \<rparr>
             | (es, Some (Inl Nullish)) \<Rightarrow>
                 \<lparr> effects = first # es,
                   outcome = Throws (Error (typeErrorMessage w ''message'')) \<rparr>
             | (es, Some (Inl (Error message))) \<Rightarrow>
                 \<lparr> effects = first # es @
                     [WriteData \<lparr> dtype = tavily_search_status,
                        dcontent = ContentObject
                          \<lparr> c_toolCallId = toolCallId,
                            c_status = Some Error_occurred_during_search,
                            c_sources = None, c_delta = None, c_summary = None,
                            c_error = Some message \<rparr> \<rparr>],
                   outcome = Returns \<lparr> r_toolCallId = toolCallId,
                                       r_summary = ''An error occurred during the search.'',
                                       r_sources = [], r_error = Some message \<rparr> \<rparr>)))"

text \<open>The events on the channel, and the prompts given to the generator.\<close>

fun written :: "effect list \<Rightarrow> DataStreamDelta list" where
  "written [] = []"
| "written (WriteData d # es) = d # written es"
| "written (StreamTextCall p # es) = written es"

fun generatorCalls :: "effect list \<Rightarrow> string list" where
  "generatorCalls [] = []"
| "generatorCalls (WriteData d # es) = generatorCalls es"
| "generatorCalls (StreamTextCall p # es) = p # generatorCalls es"

section \<open>Vocabulary of the properties\<close>

text \<open>The three kinds of event the tool writes, as the source's object literals.\<close>

abbreviation sourcesEvent :: "string \<Rightarrow> TavilySource list \<Rightarrow> DataStreamDelta" where
  "sourcesEvent tid srcs \<equiv>
     \<lparr> dtype = tavily_search_sources,
       dcontent = ContentObject
         \<lparr> c_toolCallId = tid, c_status = None, c_sources = Some srcs,
           c_delta = None, c_summary = None, c_error = None \<rparr> \<rparr>"

abbreviation deltaEvent :: "string \<Rightarrow> string \<Rightarrow> DataStreamDelta" where
  "deltaEvent tid d \<equiv>
     \<lparr> dtype = tavily_summary_delta,
       dcontent = ContentObject
         \<lparr> c_toolCallId = tid, c_status = None, c_sources = None,
           c_delta = Some d, c_summary = None, c_error = None \<rparr> \<rparr>"

abbreviation statusEvent ::
  "string \<Rightarrow> TavilySearchStatus \<Rightarrow> TavilySource list option \<Rightarrow> string option
     \<Rightarrow> string option \<Rightarrow> DataStreamDelta" where
  "statusEvent tid st srcs summ err \<equiv>
     \<lparr> dtype = tavily_search_status,
       dcontent = ContentObject
         \<lparr> c_toolCallId = tid, c_status = Some st, c_sources = srcs,
           c_delta = None, c_summary = summ, c_error = err \<rparr> \<rparr>"

text \<open>The value each query hands to the barrier. The loop of step 2 reads of it the
  array \<open>results\<close> only, and a value without one as it reads an empty response:
  \<open>searchResponses\<close> lists, in the order of the queries, the responses as the loop
  reads them.\<close>

definition settled :: "string \<Rightarrow> fetch_outcome \<Rightarrow> parsed_body" where
  "settled q out =
     (case searchPromise q out of Inl e \<Rightarrow> Shaped (emptyResponse q) | Inr b \<Rightarrow> b)"

definition settledValues :: "world \<Rightarrow> string list \<Rightarrow> parsed_body list" where
  "settledValues w queries =
     map (\<lambda>(i, q). settled q (fetch w i q)) (enumerate 0 queries)"

definition readAs :: "string \<Rightarrow> parsed_body \<Rightarrow> TavilySearchResponse" where
  "readAs q b = (case b of Shaped r \<Rightarrow> r | Unshaped \<Rightarrow> emptyResponse q)"

definition searchResponses :: "world \<Rightarrow> string list \<Rightarrow> TavilySearchResponse list" where
  "searchResponses w queries =
     map (\<lambda>(i, q). readAs q (settled q (fetch w i q))) (enumerate 0 queries)"

text \<open>Every record has its \<open>content\<close>.\<close>

definition withContent :: "TavilySearchResult list \<Rightarrow> bool" where
  "withContent rs = list_all (\<lambda>s. content s \<noteq> None) rs"


text \<open>The first five records of every response, concatenated; and one batch event per
  response that has results.\<close>

definition capped :: "TavilySearchResponse list \<Rightarrow> TavilySearchResult list" where
  "capped rs = concat (map (\<lambda>r. take 5 (results r)) rs)"

definition batches :: "string \<Rightarrow> TavilySearchResponse list \<Rightarrow> DataStreamDelta list" where
  "batches tid rs =
     map (\<lambda>r. sourcesEvent tid (map serializeSearchResult (take 5 (results r))))
       (filter (\<lambda>r. results r \<noteq> []) rs)"

text \<open>Emission in completion order, as a reading of the fetches' settle order: the
  batch events of the responses taken in the order in which their promises settled.\<close>

definition completionOrderBatches :: "world \<Rightarrow> string list \<Rightarrow> DataStreamDelta list" where
  "completionOrderBatches w queries =
     batches (uuid w)
       (map (\<lambda>i. searchResponses w queries ! i)
          (filter (\<lambda>i. i < length queries) (settle_order w)))"

text \<open>Readings of an event log: the statuses of its status events, the source lists
  carried by the status events of one status, the summaries carried by them, the
  fragments of its summary-delta events, and the sources an event gives the reducer
  to merge.\<close>

definition statusOf :: "DataStreamDelta \<Rightarrow> TavilySearchStatus list" where
  "statusOf d =
     (case dcontent d of
        ContentObject c \<Rightarrow>
          (if dtype d = tavily_search_status then
             (case c_status c of None \<Rightarrow> [] | Some st \<Rightarrow> [st])
           else [])
      | _ \<Rightarrow> [])"

definition statuses :: "DataStreamDelta list \<Rightarrow> TavilySearchStatus list" where
  "statuses ds = concat (map statusOf ds)"

definition sourcesCarried :: "TavilySearchStatus \<Rightarrow> DataStreamDelta list \<Rightarrow> TavilySource list list" where
  "sourcesCarried st ds =
     concat (map (\<lambda>d. if statusOf d = [st] then
                         (case dcontent d of
                            ContentObject c \<Rightarrow> (case c_sources c of None \<Rightarrow> [] | Some srcs \<Rightarrow> [srcs])
                          | _ \<Rightarrow> [])
                       else []) ds)"

definition summariesCarried :: "TavilySearchStatus \<Rightarrow> DataStreamDelta list \<Rightarrow> string list" where
  "summariesCarried st ds =
     concat (map (\<lambda>d. if statusOf d = [st] then
                         (case dcontent d of
                            ContentObject c \<Rightarrow> (case c_summary c of None \<Rightarrow> [] | Some t \<Rightarrow> [t])
                          | _ \<Rightarrow> [])
                       else []) ds)"

definition fragmentOf :: "DataStreamDelta \<Rightarrow> string list" where
  "fragmentOf d =
     (case dcontent d of
        ContentObject c \<Rightarrow>
          (if dtype d = tavily_summary_delta then
             (case c_delta c of None \<Rightarrow> [] | Some t \<Rightarrow> [t])
           else [])
      | _ \<Rightarrow> [])"

definition deltaFragments :: "DataStreamDelta list \<Rightarrow> string list" where
  "deltaFragments ds = concat (map fragmentOf ds)"

definition sourcesOf :: "DataStreamDelta \<Rightarrow> TavilySource list" where
  "sourcesOf d =
     (case dcontent d of
        ContentObject c \<Rightarrow>
          (if dtype d = tavily_search_status \<or> dtype d = tavily_search_sources then
             (case c_sources c of None \<Rightarrow> [] | Some srcs \<Rightarrow> srcs)
           else [])
      | _ \<Rightarrow> [])"

text \<open>The object \<open>execute\<close> returns after \<open>Complete\<close>, each content cut to 150 code
  units and followed by three dots.\<close>

definition returned :: "string \<Rightarrow> string \<Rightarrow> TavilySource list \<Rightarrow> tool_result" where
  "returned tid finalSummary srcs =
     \<lparr> r_toolCallId = tid, r_summary = finalSummary, r_sources = srcs, r_error = None \<rparr>"

text \<open>For one call of the reducer, started without an \<open>initialResult\<close>: the source
  records its events bring, in arrival order, and the list the component renders.\<close>

definition arrivals :: "string \<Rightarrow> DataStreamDelta list \<Rightarrow> TavilySource list" where
  "arrivals tid dataStream = concat (map sourcesOf (filter (relevant tid) dataStream))"

definition renderedSources :: "string \<Rightarrow> DataStreamDelta list \<Rightarrow> TavilySource list" where
  "renderedSources tid dataStream =
     uniqueSources (sources (processStream tid dataStream (initialState None)))"

subsection \<open>A concrete world\<close>

text \<open>
  Every query is answered with one record whose title is the query and whose url is
  \<open>u\<close>, except the query \<open>down\<close>, whose fetch throws, \<open>refused\<close>, answered with
  a status that is not a success, \<open>garbled\<close>, whose body does not parse,
  \<open>none\<close>, answered with no record, \<open>odd\<close>, answered with a body that parses
  and has no \<open>results\<close>, and \<open>bare\<close>, answered with one record that has no
  \<open>content\<close>. The second fetch completes before the first one. The generator yields
  two fragments.
\<close>

definition hit :: "string \<Rightarrow> TavilySearchResult" where
  "hit q = \<lparr> title = q, url = ''u'', content = Some ''text'', score = 1 \<rparr>"

definition bareHit :: "string \<Rightarrow> TavilySearchResult" where
  "bareHit q = \<lparr> title = q, url = ''v'', content = None, score = 1 \<rparr>"

definition answer :: "string \<Rightarrow> TavilySearchResult list \<Rightarrow> fetch_outcome" where
  "answer q rs =
     FetchResolves \<lparr> ok = True, statusText = ''OK'',
                     json = JsonResolves
                       (Shaped \<lparr> query = q, response_time = 1, results = rs \<rparr>) \<rparr>"

definition demoFetch :: "nat \<Rightarrow> string \<Rightarrow> fetch_outcome" where
  "demoFetch i q =
     (if q = ''down'' then FetchRejects (Error ''network'')
      else if q = ''refused'' then
        FetchResolves \<lparr> ok = False, statusText = ''Unauthorized'',
                        json = JsonRejects (Error ''no body'') \<rparr>
      else if q = ''garbled'' then
        FetchResolves \<lparr> ok = True, statusText = ''OK'',
                        json = JsonRejects (Error ''Unexpected token'') \<rparr>
      else if q = ''none'' then answer q []
      else if q = ''odd'' then
        FetchResolves \<lparr> ok = True, statusText = ''OK'', json = JsonResolves Unshaped \<rparr>
      else if q = ''bare'' then answer q [bareHit q]
      else answer q [hit q])"

definition demoWorld :: world where
  "demoWorld =
     \<lparr> TAVILY_API_KEY = Some ''key'', uuid = ''call-1'', fetch = demoFetch,
       settle_order = [1, 0], streamText = (\<lambda>prompt. TextStream [''ab'', ''c''] None),
       typeErrorMessage = (\<lambda>p. ''Cannot read property '' @ p) \<rparr>"

definition brokenGenerator :: "string \<Rightarrow> text_stream" where
  "brokenGenerator prompt = TextStream [''ab''] (Some (Error ''boom''))"


section \<open>Lemmas about the model\<close>

declare string_of_nat.simps [simp del]

subsection \<open>\<open>Promise.all\<close> on promises that all fulfil\<close>

lemma those_map_Some: "those (map Some vs) = Some vs"
  by (induction vs) auto

lemma those_None: "None \<in> set slots \<Longrightarrow> those slots = None"
  by (induction slots) (auto split: option.splits)

lemma promise_all_run_eq:
  assumes "length slots = length vs"
    and "\<forall>i<length vs. slots ! i = None \<or> slots ! i = Some (vs ! i)"
  shows "promise_all_run (map Inr vs) order slots =
           (if \<forall>i<length vs. i \<in> set order \<or> slots ! i \<noteq> None then Some (Inr vs) else None)"
  using assms
proof (induction order arbitrary: slots)
  case Nil
  show ?case
  proof (cases "\<forall>i<length vs. slots ! i \<noteq> None")
    case True
    have "slots ! i = map Some vs ! i" if "i < length slots" for i
      using that Nil.prems True by fastforce
    with Nil.prems(1) have "slots = map Some vs"
      by (intro nth_equalityI) simp_all
    with True show ?thesis by (simp add: those_map_Some)
  next
    case False
    then obtain i where "i < length slots" "slots ! i = None"
      using Nil.prems(1) by auto
    then have "None \<in> set slots"
      by (metis nth_mem)
    with False show ?thesis by (simp add: those_None)
  qed
next
  case (Cons i order)
  show ?case
  proof (cases "i < length vs")
    case True
    let ?slots = "slots[i := Some (vs ! i)]"
    have len: "length ?slots = length vs" using Cons.prems by simp
    have inv: "\<forall>j<length vs. ?slots ! j = None \<or> ?slots ! j = Some (vs ! j)"
      using Cons.prems True by (simp add: nth_list_update)
    have cov: "(\<forall>j<length vs. j \<in> set order \<or> ?slots ! j \<noteq> None)
                 \<longleftrightarrow> (\<forall>j<length vs. j \<in> set (i # order) \<or> slots ! j \<noteq> None)"
      using Cons.prems True by (auto simp: nth_list_update)
    show ?thesis
      using True Cons.IH[OF len inv] cov by simp
  next
    case False
    have cov: "(\<forall>j<length vs. j \<in> set order \<or> slots ! j \<noteq> None)
                 \<longleftrightarrow> (\<forall>j<length vs. j \<in> set (i # order) \<or> slots ! j \<noteq> None)"
      using False by auto
    show ?thesis
      using False Cons.IH[OF Cons.prems] cov by simp
  qed
qed

lemma Promise_all_eq:
  "Promise_all (map Inr vs) order =
     (if all_settle order (length vs) then Some (Inr vs) else None)"
  unfolding Promise_all_def
  by (subst promise_all_run_eq) (auto simp: all_settle_def list_all_iff)

subsection \<open>The search promises and the barrier\<close>

lemma searchPromise_settled: "searchPromise q out = Inr (settled q out)"
  by (simp add: settled_def searchPromise_def split: sum.splits)

lemma searchPromises_fulfil: "searchPromises w queries = map Inr (settledValues w queries)"
  by (simp add: searchPromises_def settledValues_def searchPromise_settled split_def)

lemma length_settledValues: "length (settledValues w queries) = length queries"
  by (simp add: settledValues_def)



lemma nth_searchResponses:
  "i < length queries \<Longrightarrow>
   searchResponses w queries ! i
     = readAs (queries ! i) (settled (queries ! i) (fetch w i (queries ! i)))"
  by (simp add: searchResponses_def nth_enumerate_eq)



lemma barrier:
  "Promise_all (searchPromises w queries) (settle_order w) =
     (if all_settle (settle_order w) (length queries)
      then Some (Inr (settledValues w queries)) else None)"
  by (simp add: searchPromises_fulfil Promise_all_eq length_settledValues)

subsection \<open>The two loops\<close>

lemma readAs_simps [simp]:
  "readAs q (Shaped r) = r"
  "readAs q Unshaped = emptyResponse q"
  by (simp_all add: readAs_def)

lemma capped_Cons: "capped (r # rs) = take 5 (results r) @ capped rs"
  by (simp add: capped_def)

lemma batches_Cons:
  "batches tid (r # rs) =
     (if results r \<noteq> []
      then [sourcesEvent tid (map serializeSearchResult (take 5 (results r)))] else [])
     @ batches tid rs"
  by (simp add: batches_def)

lemma collectSources_pairs:
  "collectSources tid (map snd qbs) (allSources, es) =
     (allSources @ capped (map (\<lambda>(q, b). readAs q b) qbs),
      es @ map WriteData (batches tid (map (\<lambda>(q, b). readAs q b) qbs)))"
proof (induction qbs arbitrary: allSources es)
  case Nil
  show ?case by (simp add: capped_def batches_def)
next
  case (Cons qb qbs)
  obtain q b where qb: "qb = (q, b)" by (cases qb)
  show ?case
    by (cases b)
       (simp_all add: qb Cons.IH capped_Cons batches_Cons emptyResponse_def Let_def)
qed

lemma collectSources_eq:
  "collectSources tid (settledValues w queries) (allSources, es) =
     (allSources @ capped (searchResponses w queries),
      es @ map WriteData (batches tid (searchResponses w queries)))"
proof -
  let ?qbs = "map (\<lambda>(i, q). (q, settled q (fetch w i q))) (enumerate 0 queries)"
  have 1: "settledValues w queries = map snd ?qbs"
    by (simp add: settledValues_def split_def)
  have 2: "searchResponses w queries = map (\<lambda>(q, b). readAs q b) ?qbs"
    by (simp add: searchResponses_def split_def)
  show ?thesis
    unfolding 1 2 by (rule collectSources_pairs)
qed

lemma consumeStream_eq:
  "consumeStream tid fs (finalSummary, es) =
     (finalSummary @ concat fs, es @ map (\<lambda>d. WriteData (deltaEvent tid d)) fs)"
  by (induction fs arbitrary: finalSummary es) simp_all

lemma capped_empty: "capped rs = [] \<longleftrightarrow> (\<forall>r\<in>set rs. results r = [])"
  by (auto simp: capped_def)


lemma batches_empty: "capped rs = [] \<Longrightarrow> batches tid rs = []"
  by (simp add: capped_empty batches_def filter_empty_conv)

lemma truncatedSources_withContent:
  "withContent rs \<Longrightarrow> \<exists>srcs. truncatedSources w rs = Inr srcs"
  by (induction rs) (auto simp: withContent_def)

lemma truncatedSources_bare:
  "\<not> withContent rs \<Longrightarrow>
   truncatedSources w rs = Inl (Error (typeErrorMessage w ''substring''))"
  by (induction rs) (auto simp: withContent_def split: option.splits sum.splits)

subsection \<open>The paths of \<open>execute\<close>\<close>

lemma summarizeSources_eq:
  "summarizeSources w tid queries allSources es =
     (let prompt = summarizationPrompt queries allSources;
          srcs = map serializeSearchResult allSources;
          fs = fragments (streamText w prompt);
          es2 = es @ [WriteData (statusEvent tid Summarizing (Some srcs) None None),
                      StreamTextCall prompt]
                   @ map (\<lambda>d. WriteData (deltaEvent tid d)) fs
      in (case failure (streamText w prompt) of
            Some e \<Rightarrow> (es2, Some (Inl e))
          | None \<Rightarrow>
              (es2 @ [WriteData (statusEvent tid Complete (Some srcs) (Some (concat fs)) None)],
               (case truncatedSources w allSources of
                  Inl e \<Rightarrow> Some (Inl e)
                | Inr out \<Rightarrow> Some (Inr (returned tid (concat fs) out))))))"
  by (simp add: summarizeSources_def consumeStream_eq Let_def returned_def
      split: option.splits sum.splits)

lemma tryBlock_eq:
  "tryBlock w tid queries =
     (if \<not> all_settle (settle_order w) (length queries) then ([], None)
      else
        (let rs = searchResponses w queries
         in if capped rs = [] then
              ([WriteData (statusEvent tid No_results_found (Some []) None None)],
               Some (Inr \<lparr> r_toolCallId = tid,
                           r_summary = ''No relevant search results found.'',
                           r_sources = [], r_error = None \<rparr>))
            else summarizeSources w tid queries (capped rs) (map WriteData (batches tid rs))))"
  by (simp add: tryBlock_def barrier collectSources_eq Let_def batches_empty)


lemma execute_absent:
  "\<not> truthy (TAVILY_API_KEY w) \<Longrightarrow>
   execute w queries = \<lparr> effects = [], outcome = Throws (Error ''Tavily API key not configured.'') \<rparr>"
  by (simp add: execute_def)

lemma execute_pending:
  "truthy (TAVILY_API_KEY w) \<Longrightarrow> \<not> all_settle (settle_order w) (length queries) \<Longrightarrow>
   execute w queries =
     \<lparr> effects = [WriteData (statusEvent (uuid w) Searching (Some []) None None)],
       outcome = Pending \<rparr>"
  by (simp add: execute_def tryBlock_eq Let_def)

lemma execute_no_results:
  "truthy (TAVILY_API_KEY w) \<Longrightarrow> all_settle (settle_order w) (length queries) \<Longrightarrow>
   capped (searchResponses w queries) = [] \<Longrightarrow>
   execute w queries =
     \<lparr> effects = [WriteData (statusEvent (uuid w) Searching (Some []) None None),
                  WriteData (statusEvent (uuid w) No_results_found (Some []) None None)],
       outcome = Returns \<lparr> r_toolCallId = uuid w,
                           r_summary = ''No relevant search results found.'',
                           r_sources = [], r_error = None \<rparr> \<rparr>"
  by (simp add: execute_def tryBlock_eq Let_def)

lemma execute_complete:
  assumes "truthy (TAVILY_API_KEY w)" and "all_settle (settle_order w) (length queries)"
    and "capped (searchResponses w queries) \<noteq> []"
    and "streamText w (summarizationPrompt queries (capped (searchResponses w queries)))
           = TextStream fs None"
    and "truncatedSources w (capped (searchResponses w queries)) = Inr out"
  shows "execute w queries =
     \<lparr> effects =
         WriteData (statusEvent (uuid w) Searching (Some []) None None)
         # map WriteData (batches (uuid w) (searchResponses w queries))
         @ [WriteData (statusEvent (uuid w) Summarizing
               (Some (map serializeSearchResult (capped (searchResponses w queries)))) None None),
            StreamTextCall (summarizationPrompt queries (capped (searchResponses w queries)))]
         @ map (\<lambda>d. WriteData (deltaEvent (uuid w) d)) fs
         @ [WriteData (statusEvent (uuid w) Complete
               (Some (map serializeSearchResult (capped (searchResponses w queries))))
               (Some (concat fs)) None)],
       outcome = Returns (returned (uuid w) (concat fs) out) \<rparr>"
  using assms by (simp add: execute_def tryBlock_eq summarizeSources_eq Let_def)

lemma execute_bare:
  assumes "truthy (TAVILY_API_KEY w)" and "all_settle (settle_order w) (length queries)"
    and "capped (searchResponses w queries) \<noteq> []"
    and "streamText w (summarizationPrompt queries (capped (searchResponses w queries)))
           = TextStream fs None"
    and "\<not> withContent (capped (searchResponses w queries))"
  shows "execute w queries =
     \<lparr> effects =
         WriteData (statusEvent (uuid w) Searching (Some []) None None)
         # map WriteData (batches (uuid w) (searchResponses w queries))
         @ [WriteData (statusEvent (uuid w) Summarizing
               (Some (map serializeSearchResult (capped (searchResponses w queries)))) None None),
            StreamTextCall (summarizationPrompt queries (capped (searchResponses w queries)))]
         @ map (\<lambda>d. WriteData (deltaEvent (uuid w) d)) fs
         @ [WriteData (statusEvent (uuid w) Complete
               (Some (map serializeSearchResult (capped (searchResponses w queries))))
               (Some (concat fs)) None),
            WriteData (statusEvent (uuid w) Error_occurred_during_search None None
               (Some (typeErrorMessage w ''substring'')))],
       outcome = Returns \<lparr> r_toolCallId = uuid w,
                           r_summary = ''An error occurred during the search.'',
                           r_sources = [],
                           r_error = Some (typeErrorMessage w ''substring'') \<rparr> \<rparr>"
  using assms(1-4) truncatedSources_bare [OF assms(5), of w]
  by (simp add: execute_def tryBlock_eq summarizeSources_eq Let_def)

lemma execute_failure:
  assumes "truthy (TAVILY_API_KEY w)" and "all_settle (settle_order w) (length queries)"
    and "capped (searchResponses w queries) \<noteq> []"
    and "streamText w (summarizationPrompt queries (capped (searchResponses w queries)))
           = TextStream fs (Some (Error m))"
  shows "execute w queries =
     \<lparr> effects =
         WriteData (statusEvent (uuid w) Searching (Some []) None None)
         # map WriteData (batches (uuid w) (searchResponses w queries))
         @ [WriteData (statusEvent (uuid w) Summarizing
               (Some (map serializeSearchResult (capped (searchResponses w queries)))) None None),
            StreamTextCall (summarizationPrompt queries (capped (searchResponses w queries)))]
         @ map (\<lambda>d. WriteData (deltaEvent (uuid w) d)) fs
         @ [WriteData (statusEvent (uuid w) Error_occurred_during_search None None (Some m))],
       outcome = Returns \<lparr> r_toolCallId = uuid w,
                           r_summary = ''An error occurred during the search.'',
                           r_sources = [], r_error = Some m \<rparr> \<rparr>"
  using assms by (simp add: execute_def tryBlock_eq summarizeSources_eq Let_def)

lemma execute_nullish:
  assumes "truthy (TAVILY_API_KEY w)" and "all_settle (settle_order w) (length queries)"
    and "capped (searchResponses w queries) \<noteq> []"
    and "streamText w (summarizationPrompt queries (capped (searchResponses w queries)))
           = TextStream fs (Some Nullish)"
  shows "execute w queries =
     \<lparr> effects =
         WriteData (statusEvent (uuid w) Searching (Some []) None None)
         # map WriteData (batches (uuid w) (searchResponses w queries))
         @ [WriteData (statusEvent (uuid w) Summarizing
               (Some (map serializeSearchResult (capped (searchResponses w queries)))) None None),
            StreamTextCall (summarizationPrompt queries (capped (searchResponses w queries)))]
         @ map (\<lambda>d. WriteData (deltaEvent (uuid w) d)) fs,
       outcome = Throws (Error (typeErrorMessage w ''message'')) \<rparr>"
  using assms by (simp add: execute_def tryBlock_eq summarizeSources_eq Let_def)

lemma execute_cases [case_names absent pending no_results complete bare failure nullish]:
  obtains
    (absent) "\<not> truthy (TAVILY_API_KEY w)"
  | (pending) "truthy (TAVILY_API_KEY w)" "\<not> all_settle (settle_order w) (length queries)"
  | (no_results) "truthy (TAVILY_API_KEY w)" "all_settle (settle_order w) (length queries)"
      "capped (searchResponses w queries) = []"
  | (complete) fs out where
      "truthy (TAVILY_API_KEY w)" "all_settle (settle_order w) (length queries)"
      "capped (searchResponses w queries) \<noteq> []"
      "streamText w (summarizationPrompt queries (capped (searchResponses w queries)))
         = TextStream fs None"
      "truncatedSources w (capped (searchResponses w queries)) = Inr out"
  | (bare) fs where
      "truthy (TAVILY_API_KEY w)" "all_settle (settle_order w) (length queries)"
      "capped (searchResponses w queries) \<noteq> []"
      "streamText w (summarizationPrompt queries (capped (searchResponses w queries)))
         = TextStream fs None"
      "\<not> withContent (capped (searchResponses w queries))"
  | (failure) fs m where
      "truthy (TAVILY_API_KEY w)" "all_settle (settle_order w) (length queries)"
      "capped (searchResponses w queries) \<noteq> []"
      "streamText w (summarizationPrompt queries (capped (searchResponses w queries)))
         = TextStream fs (Some (Error m))"
  | (nullish) fs where
      "truthy (TAVILY_API_KEY w)" "all_settle (settle_order w) (length queries)"
      "capped (searchResponses w queries) \<noteq> []"
      "streamText w (summarizationPrompt queries (capped (searchResponses w queries)))
         = TextStream fs (Some Nullish)"
proof (cases "streamText w (summarizationPrompt queries (capped (searchResponses w queries)))")
  case (TextStream fs f)
  show ?thesis
  proof (cases f)
    case None
    show ?thesis
    proof (cases "withContent (capped (searchResponses w queries))")
      case True
      then obtain out where "truncatedSources w (capped (searchResponses w queries)) = Inr out"
        using truncatedSources_withContent by blast
      with TextStream None show ?thesis
        using that(1,2,3,4) by blast
    next
      case False
      with TextStream None show ?thesis
        using that(1,2,3,5) by blast
    qed
  next
    case (Some e)
    with TextStream show ?thesis
      using that(1,2,3,6,7) by (cases e) blast+
  qed
qed

lemma execute_settle_order:
  "all_settle order' (length queries) \<Longrightarrow> all_settle (settle_order w) (length queries) \<Longrightarrow>
   execute (w\<lparr>settle_order := order'\<rparr>) queries = execute w queries"
proof -
  have t: "truncatedSources (w\<lparr>settle_order := order'\<rparr>) rs = truncatedSources w rs" for rs
    by (induction rs) (simp_all split: option.splits)
  have s: "summarizeSources (w\<lparr>settle_order := order'\<rparr>) tid queries allSources es
             = summarizeSources w tid queries allSources es" for tid allSources es
    unfolding summarizeSources_def t by simp
  have r: "searchResponses (w\<lparr>settle_order := order'\<rparr>) queries = searchResponses w queries"
    by (simp add: searchResponses_def)
  assume a: "all_settle order' (length queries)" "all_settle (settle_order w) (length queries)"
  have tb: "tryBlock (w\<lparr>settle_order := order'\<rparr>) tid queries = tryBlock w tid queries" for tid
    unfolding tryBlock_eq r s using a by simp
  show "execute (w\<lparr>settle_order := order'\<rparr>) queries = execute w queries"
    unfolding execute_def tb by simp
qed

subsection \<open>Reading the effects and the event log\<close>

lemma written_append [simp]: "written (xs @ ys) = written xs @ written ys"
  by (induction xs rule: written.induct) simp_all

lemma written_WriteData [simp]: "written (map WriteData ds) = ds"
  by (induction ds) simp_all

lemma written_deltas [simp]: "written (map (\<lambda>d. WriteData (f d)) fs) = map f fs"
  by (induction fs) simp_all

lemma generatorCalls_append [simp]: "generatorCalls (xs @ ys) = generatorCalls xs @ generatorCalls ys"
  by (induction xs rule: generatorCalls.induct) simp_all

lemma generatorCalls_WriteData [simp]: "generatorCalls (map (\<lambda>d. WriteData (f d)) ds) = []"
  by (induction ds) simp_all

lemma statusOf_simps [simp]:
  "statusOf (statusEvent tid st srcs summ err) = [st]"
  "statusOf (sourcesEvent tid ss) = []"
  "statusOf (deltaEvent tid t) = []"
  by (simp_all add: statusOf_def)

lemma fragmentOf_simps [simp]:
  "fragmentOf (statusEvent tid st srcs summ err) = []"
  "fragmentOf (sourcesEvent tid ss) = []"
  "fragmentOf (deltaEvent tid t) = [t]"
  by (simp_all add: fragmentOf_def)

lemma statuses_simps [simp]:
  "statuses [] = []"
  "statuses (d # ds) = statusOf d @ statuses ds"
  "statuses (ds @ ds') = statuses ds @ statuses ds'"
  by (simp_all add: statuses_def)

lemma deltaFragments_simps [simp]:
  "deltaFragments [] = []"
  "deltaFragments (d # ds) = fragmentOf d @ deltaFragments ds"
  "deltaFragments (ds @ ds') = deltaFragments ds @ deltaFragments ds'"
  by (simp_all add: deltaFragments_def)

lemma statuses_batches [simp]: "statuses (batches tid rs) = []"
  by (induction rs) (simp_all add: batches_def)

lemma statuses_deltas [simp]: "statuses (map (deltaEvent tid) fs) = []"
  by (induction fs) simp_all

lemma deltaFragments_batches [simp]: "deltaFragments (batches tid rs) = []"
  by (induction rs) (simp_all add: batches_def)

lemma deltaFragments_deltas [simp]: "deltaFragments (map (deltaEvent tid) fs) = fs"
  by (induction fs) simp_all

lemma carried_simps [simp]:
  "sourcesCarried st [] = []"
  "sourcesCarried st (ds @ ds') = sourcesCarried st ds @ sourcesCarried st ds'"
  "summariesCarried st [] = []"
  "summariesCarried st (ds @ ds') = summariesCarried st ds @ summariesCarried st ds'"
  by (simp_all add: sourcesCarried_def summariesCarried_def)

lemma carried_Cons [simp]:
  "sourcesCarried st (statusEvent tid st' srcs summ err # ds) =
     (if st' = st then (case srcs of None \<Rightarrow> [] | Some ss \<Rightarrow> [ss]) else []) @ sourcesCarried st ds"
  "summariesCarried st (statusEvent tid st' srcs summ err # ds) =
     (if st' = st then (case summ of None \<Rightarrow> [] | Some t \<Rightarrow> [t]) else []) @ summariesCarried st ds"
  by (simp_all add: sourcesCarried_def summariesCarried_def)

lemma carried_Cons_other [simp]:
  "sourcesCarried st (deltaEvent tid t # ds) = sourcesCarried st ds"
  "sourcesCarried st (sourcesEvent tid ss # ds) = sourcesCarried st ds"
  "summariesCarried st (deltaEvent tid t # ds) = summariesCarried st ds"
  "summariesCarried st (sourcesEvent tid ss # ds) = summariesCarried st ds"
  by (simp_all add: sourcesCarried_def summariesCarried_def)

lemma carried_no_status:
  "statuses ds = [] \<Longrightarrow> sourcesCarried st ds = []"
  "statuses ds = [] \<Longrightarrow> summariesCarried st ds = []"
  by (induction ds) (simp_all add: sourcesCarried_def summariesCarried_def)

lemma carried_batches [simp]:
  "sourcesCarried st (batches tid rs) = []"
  "summariesCarried st (batches tid rs) = []"
  by (simp_all add: carried_no_status)

lemma carried_deltas [simp]:
  "sourcesCarried st (map (deltaEvent tid) fs) = []"
  "summariesCarried st (map (deltaEvent tid) fs) = []"
  by (simp_all add: carried_no_status)

lemma filter_sources_batches [simp]:
  "filter (\<lambda>d. dtype d = tavily_search_sources) (batches tid rs) = batches tid rs"
  by (simp add: batches_def filter_map o_def)

lemma filter_sources_deltas [simp]:
  "filter (\<lambda>d. dtype d = tavily_search_sources) (map (deltaEvent tid) fs) = []"
  by (simp add: filter_map o_def)

subsection \<open>The reducer\<close>

lemma appendUnique_alt:
  "appendUnique s new = s @ filter (\<lambda>ns. s_url ns \<notin> s_url ` set s) new"
proof -
  have eq: "list_ex (\<lambda>es. s_url es = s_url ns) s = (s_url ns \<in> s_url ` set s)" for ns
    by (force simp: list_ex_iff)
  show ?thesis
    by (simp add: appendUnique_def eq)
qed

lemma appendUnique_Nil [simp]: "appendUnique s [] = s"
  by (simp add: appendUnique_def)

lemma appendUnique_twice: "appendUnique (appendUnique s new) new = appendUnique s new"
proof -
  have "filter (\<lambda>ns. s_url ns \<notin> s_url ` set (appendUnique s new)) new = []"
    by (auto simp: appendUnique_alt filter_empty_conv)
  then show ?thesis
    by (subst appendUnique_alt) simp
qed

lemma applySources_twice: "applySources c (applySources c st) = applySources c st"
  by (simp add: applySources_def appendUnique_twice split: option.splits)

lemma applyStatus_twice: "applyStatus c (applyStatus c st) = applyStatus c st"
  by (simp add: applyStatus_def Let_def appendUnique_twice split: option.splits)

lemma sources_applyDelta:
  "sources (applyDelta st d) = appendUnique (sources st) (sourcesOf d)"
  by (simp add: applyDelta_def applyStatus_def applySources_def applySummaryDelta_def
      sourcesOf_def Let_def split: delta_content.splits delta_type.splits option.splits)

lemma sources_foldl_applyDelta:
  "sources (foldl applyDelta st ds) = foldl appendUnique (sources st) (map sourcesOf ds)"
  by (induction ds arbitrary: st) (simp_all add: sources_applyDelta)

lemma uniqueFilter_append:
  "uniqueFilter seen (xs @ ys) = uniqueFilter seen xs @ uniqueFilter (seen \<union> s_url ` set xs) ys"
  by (induction xs arbitrary: seen) (simp_all add: insert_absorb)

lemma uniqueFilter_drop_seen:
  "U \<subseteq> seen \<Longrightarrow> uniqueFilter seen (filter (\<lambda>n. s_url n \<notin> U) ys) = uniqueFilter seen ys"
  by (induction ys arbitrary: seen) (auto simp: subset_insertI2)

lemma urls_appendUnique: "s_url ` set (appendUnique s new) = s_url ` set (s @ new)"
  by (auto simp: appendUnique_alt)

lemma uniqueFilter_appendUnique:
  "uniqueFilter seen (appendUnique s new @ rest) = uniqueFilter seen (s @ new @ rest)"
proof -
  have "uniqueFilter seen (appendUnique s new) = uniqueFilter seen (s @ new)"
    by (simp add: appendUnique_alt uniqueFilter_append uniqueFilter_drop_seen)
  moreover have "uniqueFilter seen (appendUnique s new @ rest) =
      uniqueFilter seen (appendUnique s new)
      @ uniqueFilter (seen \<union> s_url ` set (appendUnique s new)) rest"
    by (rule uniqueFilter_append)
  moreover have "uniqueFilter seen ((s @ new) @ rest) =
      uniqueFilter seen (s @ new) @ uniqueFilter (seen \<union> s_url ` set (s @ new)) rest"
    by (rule uniqueFilter_append)
  ultimately show ?thesis
    by (simp add: urls_appendUnique)
qed

lemma uniqueSources_foldl:
  "uniqueSources (foldl appendUnique s bs) = uniqueSources (s @ concat bs)"
proof (induction bs arbitrary: s)
  case Nil
  show ?case by simp
next
  case (Cons b bs)
  have "uniqueSources (foldl appendUnique s (b # bs)) = uniqueSources (appendUnique s b @ concat bs)"
    using Cons.IH [of "appendUnique s b"] by simp
  also have "\<dots> = uniqueSources (s @ concat (b # bs))"
    by (simp add: uniqueSources_def uniqueFilter_appendUnique)
  finally show ?case .
qed

lemma uniqueFilter_urls:
  "s_url ` set (uniqueFilter seen xs) = s_url ` set xs - seen"
  by (induction xs arbitrary: seen) auto

lemma uniqueFilter_distinct: "distinct (map s_url (uniqueFilter seen xs))"
proof (induction xs arbitrary: seen)
  case Nil
  show ?case by simp
next
  case (Cons x xs)
  have "s_url x \<notin> s_url ` set (uniqueFilter (insert (s_url x) seen) xs)"
    by (simp add: uniqueFilter_urls)
  with Cons.IH show ?case by simp
qed

lemma uniqueFilter_first:
  "r \<in> set (uniqueFilter seen xs) \<Longrightarrow> find (\<lambda>x. s_url x = s_url r) xs = Some r"
proof (induction xs arbitrary: seen)
  case Nil
  then show ?case by simp
next
  case (Cons x xs)
  show ?case
  proof (cases "s_url x \<in> seen")
    case True
    with Cons.prems have r: "r \<in> set (uniqueFilter seen xs)" by simp
    then have "s_url r \<in> s_url ` set (uniqueFilter seen xs)" by blast
    then have "s_url r \<notin> seen" by (simp add: uniqueFilter_urls)
    with True have "s_url x \<noteq> s_url r" by auto
    with Cons.IH [OF r] show ?thesis by simp
  next
    case False
    show ?thesis
    proof (cases "r = x")
      case True
      then show ?thesis by simp
    next
      case ne: False
      with False Cons.prems have r: "r \<in> set (uniqueFilter (insert (s_url x) seen) xs)" by simp
      then have "s_url r \<in> s_url ` set (uniqueFilter (insert (s_url x) seen) xs)" by blast
      then have "s_url r \<noteq> s_url x" by (auto simp: uniqueFilter_urls)
      with Cons.IH [OF r] show ?thesis by simp
    qed
  qed
qed

lemma renderedSources_eq: "renderedSources tid dataStream = uniqueSources (arrivals tid dataStream)"
  by (simp add: renderedSources_def arrivals_def processStream_def sources_foldl_applyDelta
      uniqueSources_foldl initialState_def)

subsection \<open>The concrete world, evaluated\<close>

lemma demo_key: "truthy (TAVILY_API_KEY demoWorld)"
  by (simp add: demoWorld_def)

lemma demo_settle:
  "all_settle (settle_order demoWorld) (length [x, y])"
  "all_settle (settle_order demoWorld) (length [x])"
  "all_settle (settle_order (demoWorld\<lparr>streamText := g\<rparr>)) (length [x])"
  by (simp_all add: demoWorld_def all_settle_def)

lemma demo_settled:
  "settled ''a'' (demoFetch i ''a'')
     = Shaped \<lparr> query = ''a'', response_time = 1, results = [hit ''a''] \<rparr>"
  "settled ''b'' (demoFetch i ''b'')
     = Shaped \<lparr> query = ''b'', response_time = 1, results = [hit ''b''] \<rparr>"
  "settled ''down'' (demoFetch i ''down'')
     = Shaped \<lparr> query = ''down'', response_time = 0, results = [] \<rparr>"
  "settled ''bare'' (demoFetch i ''bare'')
     = Shaped \<lparr> query = ''bare'', response_time = 1, results = [bareHit ''bare''] \<rparr>"
  "settled ''odd'' (demoFetch i ''odd'') = Unshaped"
  by (simp_all add: settled_def searchPromise_def searchBody_def emptyResponse_def
      demoFetch_def answer_def)

lemma demo_responses:
  "fetch w = demoFetch \<Longrightarrow> searchResponses w [''a'', ''b''] =
     [\<lparr> query = ''a'', response_time = 1, results = [hit ''a''] \<rparr>,
      \<lparr> query = ''b'', response_time = 1, results = [hit ''b''] \<rparr>]"
  "fetch w = demoFetch \<Longrightarrow> searchResponses w [''a''] =
     [\<lparr> query = ''a'', response_time = 1, results = [hit ''a''] \<rparr>]"
  "fetch w = demoFetch \<Longrightarrow> searchResponses w [''down'', ''a''] =
     [\<lparr> query = ''down'', response_time = 0, results = [] \<rparr>,
      \<lparr> query = ''a'', response_time = 1, results = [hit ''a''] \<rparr>]"
  "fetch w = demoFetch \<Longrightarrow> searchResponses w [''down'', ''bare''] =
     [\<lparr> query = ''down'', response_time = 0, results = [] \<rparr>,
      \<lparr> query = ''bare'', response_time = 1, results = [bareHit ''bare''] \<rparr>]"
  by (simp_all add: searchResponses_def demo_settled)

lemma demo_fetch: "fetch demoWorld = demoFetch" "fetch (demoWorld\<lparr>streamText := g\<rparr>) = demoFetch"
  by (simp_all add: demoWorld_def)

lemma demo_complete:
  assumes "capped (searchResponses demoWorld queries) \<noteq> []"
    and "all_settle (settle_order demoWorld) (length queries)"
    and "withContent (capped (searchResponses demoWorld queries))"
  shows "written (effects (execute demoWorld queries)) =
           statusEvent ''call-1'' Searching (Some []) None None
           # batches ''call-1'' (searchResponses demoWorld queries)
           @ [statusEvent ''call-1'' Summarizing
                (Some (map serializeSearchResult (capped (searchResponses demoWorld queries))))
                None None,
              deltaEvent ''call-1'' ''ab'', deltaEvent ''call-1'' ''c'',
              statusEvent ''call-1'' Complete
                (Some (map serializeSearchResult (capped (searchResponses demoWorld queries))))
                (Some ''abc'') None]"
proof -
  have g: "streamText demoWorld
             (summarizationPrompt queries (capped (searchResponses demoWorld queries)))
           = TextStream [''ab'', ''c''] None"
    by (simp add: demoWorld_def)
  have u: "uuid demoWorld = ''call-1''"
    by (simp add: demoWorld_def)
  obtain out where t: "truncatedSources demoWorld (capped (searchResponses demoWorld queries)) = Inr out"
    using truncatedSources_withContent [OF assms(3)] by blast
  show ?thesis
    by (simp add: execute_complete [OF demo_key assms(2,1) g t] u)
qed

lemma demo_ab:
  "capped (searchResponses demoWorld [''a'', ''b'']) = [hit ''a'', hit ''b'']"
  "capped (searchResponses demoWorld [''a'', ''b'']) \<noteq> []"
  "withContent (capped (searchResponses demoWorld [''a'', ''b'']))"
  by (simp_all add: demo_responses demo_fetch capped_def withContent_def hit_def)

lemma demo_log:
  "written (effects (execute demoWorld [''a'', ''b''])) =
     [statusEvent ''call-1'' Searching (Some []) None None,
      sourcesEvent ''call-1'' [serializeSearchResult (hit ''a'')],
      sourcesEvent ''call-1'' [serializeSearchResult (hit ''b'')],
      statusEvent ''call-1'' Summarizing
        (Some [serializeSearchResult (hit ''a''), serializeSearchResult (hit ''b'')]) None None,
      deltaEvent ''call-1'' ''ab'', deltaEvent ''call-1'' ''c'',
      statusEvent ''call-1'' Complete
        (Some [serializeSearchResult (hit ''a''), serializeSearchResult (hit ''b'')])
        (Some ''abc'') None]"
  by (simp add: demo_complete [OF demo_ab(2) demo_settle(1) demo_ab(3)])
     (simp add: demo_responses demo_fetch batches_def capped_def)

section \<open>The claims\<close>

text \<open>
  C1, as the code has it. The server does not deduplicate: the source list carried by
  the \<open>Summarizing...\<close> event, by the \<open>Complete\<close> event when the call gets
  there, and given to the generator in the prompt is the concatenation, in the order of
  the queries, of the first five records of every response. A url that two queries
  return is in it twice; removing duplicates is left to the client reducer.
\<close>

theorem accumulated_sources_keep_duplicates:
  assumes "truthy (TAVILY_API_KEY w)" and "all_settle (settle_order w) (length queries)"
    and "capped (searchResponses w queries) \<noteq> []"
  shows "sourcesCarried Summarizing (written (effects (execute w queries))) =
           [map serializeSearchResult (concat (map (\<lambda>r. take 5 (results r)) (searchResponses w queries)))]
       \<and> generatorCalls (effects (execute w queries)) =
           [summarizationPrompt queries (concat (map (\<lambda>r. take 5 (results r)) (searchResponses w queries)))]
       \<and> (Complete \<in> set (statuses (written (effects (execute w queries)))) \<longrightarrow>
            sourcesCarried Complete (written (effects (execute w queries))) =
              [map serializeSearchResult (concat (map (\<lambda>r. take 5 (results r)) (searchResponses w queries)))])"
proof (cases rule: execute_cases [where w = w and queries = queries])
  case (complete fs out)
  then show ?thesis by (simp add: execute_complete) (simp add: capped_def)
next
  case (bare fs)
  then show ?thesis by (simp add: execute_bare) (simp add: capped_def)
next
  case (failure fs m)
  then show ?thesis by (simp add: execute_failure) (simp add: capped_def)
next
  case (nullish fs)
  then show ?thesis by (simp add: execute_nullish) (simp add: capped_def)
qed (use assms in simp_all)

theorem accumulated_sources_keep_duplicates_witness:
  "truthy (TAVILY_API_KEY demoWorld)
   \<and> all_settle (settle_order demoWorld) (length [''a'', ''b''])
   \<and> capped (searchResponses demoWorld [''a'', ''b'']) \<noteq> []
   \<and> Complete \<in> set (statuses (written (effects (execute demoWorld [''a'', ''b'']))))
   \<and> sourcesCarried Summarizing (written (effects (execute demoWorld [''a'', ''b'']))) =
       [ [serializeSearchResult (hit ''a''), serializeSearchResult (hit ''b'')] ]
   \<and> sourcesCarried Complete (written (effects (execute demoWorld [''a'', ''b'']))) =
       [ [serializeSearchResult (hit ''a''), serializeSearchResult (hit ''b'')] ]
   \<and> generatorCalls (effects (execute demoWorld [''a'', ''b''])) =
       [summarizationPrompt [''a'', ''b''] [hit ''a'', hit ''b''] ]"
proof -
  have s: "all_settle (settle_order demoWorld) (length [''a'', ''b''])"
    by (rule demo_settle)
  have c: "capped (searchResponses demoWorld [''a'', ''b'']) \<noteq> []"
    by (simp add: demo_responses demo_fetch capped_def)
  have d: "Complete \<in> set (statuses (written (effects (execute demoWorld [''a'', ''b'']))))"
    by (simp add: demo_complete [OF c s demo_ab(3)])
  show ?thesis
    using demo_key s c d accumulated_sources_keep_duplicates [OF demo_key s c]
    by (simp add: demo_responses demo_fetch)
qed

text \<open>
  C1 as stated fails: two queries answered with the same url give a
  \<open>Summarizing...\<close> and a \<open>Complete\<close> event that carry that url twice.
\<close>

theorem accumulated_sources_unique_counterexample:
  "sourcesCarried Summarizing (written (effects (execute demoWorld [''a'', ''b'']))) =
     [ [\<lparr> s_title = ''a'', s_url = ''u'', s_content = Some ''text'', s_score = Some 1 \<rparr>,
       \<lparr> s_title = ''b'', s_url = ''u'', s_content = Some ''text'', s_score = Some 1 \<rparr>] ]
   \<and> sourcesCarried Complete (written (effects (execute demoWorld [''a'', ''b'']))) =
     [ [\<lparr> s_title = ''a'', s_url = ''u'', s_content = Some ''text'', s_score = Some 1 \<rparr>,
       \<lparr> s_title = ''b'', s_url = ''u'', s_content = Some ''text'', s_score = Some 1 \<rparr>] ]
   \<and> \<not> distinct (map s_url
          (concat (sourcesCarried Summarizing (written (effects (execute demoWorld [''a'', ''b'']))))))"
proof -
  have s: "all_settle (settle_order demoWorld) (length [''a'', ''b''])"
    by (rule demo_settle)
  have c: "capped (searchResponses demoWorld [''a'', ''b'']) \<noteq> []"
    by (simp add: demo_responses demo_fetch capped_def)
  show ?thesis
    by (simp add: demo_complete [OF c s demo_ab(3)])
       (simp add: demo_responses demo_fetch capped_def serializeSearchResult_def hit_def)
qed

text \<open>
  C2. For the events of one call, in arrival order, folded from the initial state, the
  source list the component renders has every url of the arriving records exactly once,
  and the record it keeps for a url is the first arriving record with that url, whole
  (title, content and score).
\<close>

theorem rendered_sources_unique_first_seen:
  "distinct (map s_url (renderedSources tid dataStream))
   \<and> set (map s_url (renderedSources tid dataStream)) = set (map s_url (arrivals tid dataStream))
   \<and> (\<forall>r\<in>set (renderedSources tid dataStream).
         find (\<lambda>x. s_url x = s_url r) (arrivals tid dataStream) = Some r)"
  by (simp add: renderedSources_eq uniqueSources_def uniqueFilter_distinct uniqueFilter_urls
      uniqueFilter_first)

theorem rendered_sources_unique_first_seen_witness:
  "arrivals ''call-1'' (written (effects (execute demoWorld [''a'', ''b'']))) =
     [serializeSearchResult (hit ''a''), serializeSearchResult (hit ''b''),
      serializeSearchResult (hit ''a''), serializeSearchResult (hit ''b''),
      serializeSearchResult (hit ''a''), serializeSearchResult (hit ''b'')]
   \<and> renderedSources ''call-1'' (written (effects (execute demoWorld [''a'', ''b''])))
       = [\<lparr> s_title = ''a'', s_url = ''u'', s_content = Some ''text'', s_score = Some 1 \<rparr>]
   \<and> serializeSearchResult (hit ''a'')
       \<in> set (renderedSources ''call-1'' (written (effects (execute demoWorld [''a'', ''b'']))))
   \<and> find (\<lambda>x. s_url x = s_url (serializeSearchResult (hit ''a'')))
        (arrivals ''call-1'' (written (effects (execute demoWorld [''a'', ''b'']))))
       = Some (serializeSearchResult (hit ''a''))"
proof -
  let ?log = "written (effects (execute demoWorld [''a'', ''b'']))"
  have a: "arrivals ''call-1'' ?log =
     [serializeSearchResult (hit ''a''), serializeSearchResult (hit ''b''),
      serializeSearchResult (hit ''a''), serializeSearchResult (hit ''b''),
      serializeSearchResult (hit ''a''), serializeSearchResult (hit ''b'')]"
    by (simp add: demo_log arrivals_def relevant_def sourcesOf_def)
  have r: "renderedSources ''call-1'' ?log
       = [\<lparr> s_title = ''a'', s_url = ''u'', s_content = Some ''text'', s_score = Some 1 \<rparr>]"
    by (simp add: renderedSources_eq a uniqueSources_def serializeSearchResult_def hit_def)
  have m: "serializeSearchResult (hit ''a'') \<in> set (renderedSources ''call-1'' ?log)"
    by (simp add: r serializeSearchResult_def hit_def)
  show ?thesis
    using a r m rendered_sources_unique_first_seen [of "''call-1''" ?log] by blast
qed

text \<open>
  C3, as the code has it. Folding a status or a sources-batch event twice in a row
  gives the state that folding it once gives. A summary-delta event appends its fragment
  every time it is folded, so folding it twice puts the fragment twice at the end of
  the summary, and changes nothing else.
\<close>

theorem replay_idempotent_except_summary_delta:
  "(dtype d \<noteq> tavily_summary_delta \<longrightarrow> applyDelta (applyDelta st d) d = applyDelta st d)
   \<and> (dtype d = tavily_summary_delta \<and> dcontent d = ContentObject c \<and> c_delta c = Some t \<longrightarrow>
        applyDelta (applyDelta st d) d = st\<lparr>summary := summary st @ t @ t\<rparr>)"
  by (cases "dtype d"; cases "dcontent d")
     (simp_all add: applyDelta_def applyStatus_twice applySources_twice applySummaryDelta_def)

theorem replay_idempotent_except_summary_delta_witness:
  "dtype (statusEvent ''call-1'' Summarizing (Some [serializeSearchResult (hit ''a'')]) None None)
     \<noteq> tavily_summary_delta
   \<and> applyDelta
       (applyDelta (initialState None)
          (statusEvent ''call-1'' Summarizing (Some [serializeSearchResult (hit ''a'')]) None None))
       (statusEvent ''call-1'' Summarizing (Some [serializeSearchResult (hit ''a'')]) None None)
     = \<lparr> status = Summarizing, sources = [serializeSearchResult (hit ''a'')],
         summary = [], error = None \<rparr>
   \<and> dtype (deltaEvent ''call-1'' ''ab'') = tavily_summary_delta
   \<and> applyDelta (applyDelta (initialState None) (deltaEvent ''call-1'' ''ab''))
        (deltaEvent ''call-1'' ''ab'')
     = \<lparr> status = Searching, sources = [], summary = ''abab'', error = None \<rparr>"
proof -
  let ?s = "statusEvent ''call-1'' Summarizing (Some [serializeSearchResult (hit ''a'')]) None None"
  let ?d = "deltaEvent ''call-1'' ''ab''"
  let ?c = "\<lparr> c_toolCallId = ''call-1'', c_status = None, c_sources = None,
              c_delta = Some ''ab'', c_summary = None, c_error = None \<rparr>"
  have once: "applyDelta (initialState None) ?s =
      \<lparr> status = Summarizing, sources = [serializeSearchResult (hit ''a'')],
        summary = [], error = None \<rparr>"
    by (simp add: applyDelta_def applyStatus_def appendUnique_def initialState_def)
  have 1: "dtype ?s \<noteq> tavily_summary_delta"
    by simp
  have 2: "dtype ?d = tavily_summary_delta \<and> dcontent ?d = ContentObject ?c \<and> c_delta ?c = Some ''ab''"
    by simp
  show ?thesis
    using 1 2 once
      replay_idempotent_except_summary_delta [where d = ?s and st = "initialState None"]
      replay_idempotent_except_summary_delta
        [where d = ?d and c = ?c and t = "''ab''" and st = "initialState None"]
    by (simp add: initialState_def)
qed

text \<open>
  C3 as stated fails for a summary-delta event with a fragment that is not empty.
\<close>

theorem replay_idempotent_counterexample:
  "summary (applyDelta (initialState None) (deltaEvent ''call-1'' ''ab'')) = ''ab''
   \<and> summary (applyDelta (applyDelta (initialState None) (deltaEvent ''call-1'' ''ab''))
                 (deltaEvent ''call-1'' ''ab'')) = ''abab''
   \<and> applyDelta (applyDelta (initialState None) (deltaEvent ''call-1'' ''ab''))
        (deltaEvent ''call-1'' ''ab'')
       \<noteq> applyDelta (initialState None) (deltaEvent ''call-1'' ''ab'')"
  by (simp add: applyDelta_def applySummaryDelta_def initialState_def)



text \<open>
  C5, as the code has it. The tool waits for every fetch (\<open>Promise.all\<close>) and then
  walks the responses in the order of the queries: the sources-batch events come in
  submission order, and the whole run is the same whatever order the fetches complete
  in.
\<close>

theorem batches_follow_submission_order:
  assumes "truthy (TAVILY_API_KEY w)" and "all_settle (settle_order w) (length queries)"
    and "all_settle order' (length queries)"
  shows "filter (\<lambda>d. dtype d = tavily_search_sources) (written (effects (execute w queries)))
           = batches (uuid w) (searchResponses w queries)
       \<and> execute (w\<lparr>settle_order := order'\<rparr>) queries = execute w queries"
proof -
  have "filter (\<lambda>d. dtype d = tavily_search_sources) (written (effects (execute w queries)))
           = batches (uuid w) (searchResponses w queries)"
  proof (cases rule: execute_cases [where w = w and queries = queries])
    case no_results
    then show ?thesis by (simp add: execute_no_results batches_empty)
  next
    case (complete fs out)
    then show ?thesis by (simp add: execute_complete)
  next
    case (bare fs)
    then show ?thesis by (simp add: execute_bare)
  next
    case (failure fs m)
    then show ?thesis by (simp add: execute_failure)
  next
    case (nullish fs)
    then show ?thesis by (simp add: execute_nullish)
  qed (use assms in simp_all)
  then show ?thesis
    using assms by (simp add: execute_settle_order)
qed

theorem batches_follow_submission_order_witness:
  "truthy (TAVILY_API_KEY demoWorld)
   \<and> all_settle (settle_order demoWorld) (length [''a'', ''b''])
   \<and> all_settle [0, 1] (length [''a'', ''b''])
   \<and> filter (\<lambda>d. dtype d = tavily_search_sources) (written (effects (execute demoWorld [''a'', ''b''])))
       = [sourcesEvent ''call-1'' [serializeSearchResult (hit ''a'')],
          sourcesEvent ''call-1'' [serializeSearchResult (hit ''b'')] ]
   \<and> execute (demoWorld\<lparr>settle_order := [0, 1]\<rparr>) [''a'', ''b''] = execute demoWorld [''a'', ''b'']"
proof -
  have s: "all_settle (settle_order demoWorld) (length [''a'', ''b''])"
    by (rule demo_settle)
  have s': "all_settle [0, 1] (length [''a'', ''b''])"
    by (simp add: all_settle_def)
  have u: "uuid demoWorld = ''call-1''"
    by (simp add: demoWorld_def)
  show ?thesis
    using demo_key s s' batches_follow_submission_order [OF demo_key s s']
    by (simp add: demo_responses demo_fetch batches_def u)
qed

text \<open>
  C5 as stated fails: the second fetch completes first, and the batch of the first
  query is still written first.
\<close>

theorem batches_follow_completion_order_counterexample:
  "settle_order demoWorld = [1, 0]
   \<and> filter (\<lambda>d. dtype d = tavily_search_sources) (written (effects (execute demoWorld [''a'', ''b''])))
       = [sourcesEvent ''call-1'' [serializeSearchResult (hit ''a'')],
          sourcesEvent ''call-1'' [serializeSearchResult (hit ''b'')] ]
   \<and> completionOrderBatches demoWorld [''a'', ''b'']
       = [sourcesEvent ''call-1'' [serializeSearchResult (hit ''b'')],
          sourcesEvent ''call-1'' [serializeSearchResult (hit ''a'')] ]
   \<and> filter (\<lambda>d. dtype d = tavily_search_sources) (written (effects (execute demoWorld [''a'', ''b''])))
       \<noteq> completionOrderBatches demoWorld [''a'', ''b'']"
proof -
  have s: "all_settle (settle_order demoWorld) (length [''a'', ''b''])"
    by (rule demo_settle)
  have c: "capped (searchResponses demoWorld [''a'', ''b'']) \<noteq> []"
    by (simp add: demo_responses demo_fetch capped_def)
  have o: "settle_order demoWorld = [1, 0]" and u: "uuid demoWorld = ''call-1''"
    by (simp_all add: demoWorld_def)
  have a: "filter (\<lambda>d. dtype d = tavily_search_sources) (written (effects (execute demoWorld [''a'', ''b''])))
       = [sourcesEvent ''call-1'' [serializeSearchResult (hit ''a'')],
          sourcesEvent ''call-1'' [serializeSearchResult (hit ''b'')] ]"
    by (simp add: demo_complete [OF c s demo_ab(3)])
       (simp add: demo_responses demo_fetch batches_def)
  have b: "completionOrderBatches demoWorld [''a'', ''b'']
       = [sourcesEvent ''call-1'' [serializeSearchResult (hit ''b'')],
          sourcesEvent ''call-1'' [serializeSearchResult (hit ''a'')] ]"
    by (simp add: completionOrderBatches_def o u demo_responses demo_fetch batches_def)
  show ?thesis
    using o a b by (simp add: serializeSearchResult_def hit_def)
qed

text \<open>
  C6. When every query yields zero results (failures included, which count as empty),
  the tool writes the first status event and then the terminal
  \<open>No results found.\<close> event with an empty source list, returns the no-results
  object, and has neither called the generator nor written a summary fragment or a
  \<open>Summarizing...\<close> event.
\<close>

theorem nothing_found:
  assumes "truthy (TAVILY_API_KEY w)" and "all_settle (settle_order w) (length queries)"
    and "\<forall>r\<in>set (searchResponses w queries). results r = []"
  shows "written (effects (execute w queries)) =
           [statusEvent (uuid w) Searching (Some []) None None,
            statusEvent (uuid w) No_results_found (Some []) None None]
       \<and> outcome (execute w queries) =
           Returns \<lparr> r_toolCallId = uuid w, r_summary = ''No relevant search results found.'',
                     r_sources = [], r_error = None \<rparr>
       \<and> generatorCalls (effects (execute w queries)) = []
       \<and> deltaFragments (written (effects (execute w queries))) = []
       \<and> Summarizing \<notin> set (statuses (written (effects (execute w queries))))"
proof -
  have "capped (searchResponses w queries) = []"
    using assms(3) by (simp add: capped_empty)
  then show ?thesis
    by (simp add: execute_no_results[OF assms(1,2)])
qed

theorem nothing_found_witness:
  "truthy (TAVILY_API_KEY demoWorld)
   \<and> all_settle (settle_order demoWorld) (length [''none'', ''down''])
   \<and> searchResponses demoWorld [''none'', ''down''] =
       [\<lparr> query = ''none'', response_time = 1, results = [] \<rparr>,
        \<lparr> query = ''down'', response_time = 0, results = [] \<rparr>]
   \<and> written (effects (execute demoWorld [''none'', ''down''])) =
       [statusEvent ''call-1'' Searching (Some []) None None,
        statusEvent ''call-1'' No_results_found (Some []) None None]
   \<and> outcome (execute demoWorld [''none'', ''down'']) =
       Returns \<lparr> r_toolCallId = ''call-1'', r_summary = ''No relevant search results found.'',
                 r_sources = [], r_error = None \<rparr>
   \<and> generatorCalls (effects (execute demoWorld [''none'', ''down''])) = []"
proof -
  have k: "truthy (TAVILY_API_KEY demoWorld)"
    by (simp add: demoWorld_def)
  have s: "all_settle (settle_order demoWorld) (length [''none'', ''down''])"
    by (simp add: demoWorld_def all_settle_def)
  have r: "searchResponses demoWorld [''none'', ''down''] =
       [\<lparr> query = ''none'', response_time = 1, results = [] \<rparr>,
        \<lparr> query = ''down'', response_time = 0, results = [] \<rparr>]"
    by (simp add: searchResponses_def settled_def searchPromise_def searchBody_def
        emptyResponse_def demoWorld_def demoFetch_def answer_def)
  then have e: "\<forall>r\<in>set (searchResponses demoWorld [''none'', ''down'']). results r = []"
    by simp
  show ?thesis
    using k s r nothing_found [OF k s e] by (simp add: demoWorld_def)
qed










text \<open>
  C10. An \<open>Error occurred during search.\<close> status event written by \<open>execute\<close>
  carries the status and the message only, neither sources nor a summary; folding it
  into any reducer state sets the status, sets the error when the message is not empty,
  and leaves the source list and the summary text as they were.
\<close>

theorem error_event_touches_status_and_error_only:
  assumes "d \<in> set (written (effects (execute w queries)))"
    and "statusOf d = [Error_occurred_during_search]"
  shows "\<exists>m. d = statusEvent (uuid w) Error_occurred_during_search None None (Some m)
           \<and> (\<forall>st. applyDelta st d =
                       st\<lparr>status := Error_occurred_during_search,
                          error := (if m = [] then error st else Some m)\<rparr>
                   \<and> sources (applyDelta st d) = sources st
                   \<and> summary (applyDelta st d) = summary st)"
proof -
  have batch: "statusOf x = []" if "x \<in> set (batches (uuid w) (searchResponses w queries))" for x
    using that by (auto simp: batches_def)
  have shape: "\<exists>m. d = statusEvent (uuid w) Error_occurred_during_search None None (Some m)"
  proof (cases rule: execute_cases [where w = w and queries = queries])
    case absent
    with assms show ?thesis by (simp add: execute_absent)
  next
    case pending
    with assms show ?thesis by (auto simp: execute_pending)
  next
    case no_results
    with assms show ?thesis by (auto simp: execute_no_results)
  next
    case (complete fs out)
    with assms batch show ?thesis by (auto simp: execute_complete)
  next
    case (bare fs)
    with assms batch show ?thesis by (auto simp: execute_bare)
  next
    case (failure fs m)
    with assms batch show ?thesis by (auto simp: execute_failure)
  next
    case (nullish fs)
    with assms batch show ?thesis by (auto simp: execute_nullish)
  qed
  then obtain m where d: "d = statusEvent (uuid w) Error_occurred_during_search None None (Some m)"
    by blast
  have "applyDelta st d =
          st\<lparr>status := Error_occurred_during_search,
             error := (if m = [] then error st else Some m)\<rparr>
        \<and> sources (applyDelta st d) = sources st
        \<and> summary (applyDelta st d) = summary st" for st
    by (simp add: d applyDelta_def applyStatus_def Let_def)
  with d show ?thesis by blast
qed

theorem error_event_touches_status_and_error_only_witness:
  "statusEvent ''call-1'' Error_occurred_during_search None None (Some ''boom'')
     \<in> set (written (effects (execute (demoWorld\<lparr>streamText := brokenGenerator\<rparr>) [''a''])))
   \<and> statusOf (statusEvent ''call-1'' Error_occurred_during_search None None (Some ''boom''))
       = [Error_occurred_during_search]
   \<and> applyDelta \<lparr> status = Summarizing, sources = [serializeSearchResult (hit ''a'')],
                    summary = ''ab'', error = None \<rparr>
         (statusEvent ''call-1'' Error_occurred_during_search None None (Some ''boom''))
       = \<lparr> status = Error_occurred_during_search, sources = [serializeSearchResult (hit ''a'')],
           summary = ''ab'', error = Some ''boom'' \<rparr>"
proof -
  let ?w = "demoWorld\<lparr>streamText := brokenGenerator\<rparr>"
  let ?d = "statusEvent ''call-1'' Error_occurred_during_search None None (Some ''boom'')"
  have k: "truthy (TAVILY_API_KEY ?w)"
    by (simp add: demoWorld_def)
  have s: "all_settle (settle_order ?w) (length [''a''])"
    by (simp add: demoWorld_def all_settle_def)
  have c: "capped (searchResponses ?w [''a'']) \<noteq> []"
    by (simp add: demo_responses demo_fetch capped_def)
  have g: "streamText ?w (summarizationPrompt [''a''] (capped (searchResponses ?w [''a''])))
           = TextStream [''ab''] (Some (Error ''boom''))"
    by (simp add: demoWorld_def brokenGenerator_def)
  have m: "?d \<in> set (written (effects (execute ?w [''a''])))"
    by (simp add: execute_failure [OF k s c g]) (simp add: demoWorld_def)
  have e: "statusOf ?d = [Error_occurred_during_search]"
    by simp
  show ?thesis
    using m e error_event_touches_status_and_error_only [OF m e] by auto
qed

end
